theory Spec2Isabelle
  imports Complex_Main
begin

section \<open>Data model of \<^verbatim>\<open>alternative/sde.py\<close>\<close>

text \<open>
  Tensor entries are idealised as real numbers. A state tensor \<open>x\<close>, a control \<open>z\<close>
  and a noise increment \<open>dw\<close> of one fixed shape are elements of a real vector space
  \<open>'a\<close>: \<open>+\<close> is the elementwise sum, and the product with a Python float or with a
  one-element tensor (the diffusion coefficient, which torch broadcasts) is the scalar
  product \<open>*\<^sub>R\<close>. A time grid is a one-dimensional tensor, a list of reals.

  Names of the source that start with an underscore cannot be written as such:
  \<^verbatim>\<open>_assert_increasing\<close> is \<open>assert_increasing\<close>, the abstract methods
  \<^verbatim>\<open>_f\<close> and \<^verbatim>\<open>_g\<close> of each class are \<open>C_priv_f\<close> and \<open>C_priv_g\<close>, and
  the local \<^verbatim>\<open>_t\<close> is \<open>t'\<close>. Methods carry the name of their class
  (\<open>BaseSDE_f\<close> for \<^verbatim>\<open>BaseSDE.f\<close>), attributes of \<^verbatim>\<open>self\<close> the prefix
  \<open>self_\<close>, those of \<^verbatim>\<open>opt\<close> the prefix \<open>opt_\<close>.
\<close>

datatype py_error = AssertionError | TypeError | ZeroDivisionError

text \<open>The configuration object \<^verbatim>\<open>opt\<close>, with the fields this module reads.\<close>

record opt =
  opt_T :: real
  opt_interval :: int
  opt_sde_type :: string
  opt_sigma_min :: real
  opt_sigma_max :: real
  opt_train_method :: string

text \<open>
  The distributions \<^verbatim>\<open>p\<close> and \<^verbatim>\<open>q\<close> are objects of other modules; an SDE
  instance holds references to them. The world holds what each of them will return:
  the \<open>k\<close>-th call of \<^verbatim>\<open>sample()\<close> on distribution \<open>d\<close> returns
  \<open>dist_samples w d k\<close>, and \<open>dist_calls w d\<close> counts the calls made so far.
  In the same way \<open>randn_samples w k\<close> is the \<open>k\<close>-th tensor drawn by
  \<^verbatim>\<open>torch.randn_like\<close> and \<open>randn_calls w\<close> the number of draws made, and
  \<open>empty_calls w\<close> counts the buffers allocated by \<^verbatim>\<open>torch.empty\<close> and
  \<^verbatim>\<open>torch.empty_like\<close>.
\<close>

type_synonym dist_ref = nat

record 'a world =
  dist_samples :: "dist_ref \<Rightarrow> nat \<Rightarrow> 'a"
  dist_calls :: "dist_ref \<Rightarrow> nat"
  randn_samples :: "nat \<Rightarrow> 'a"
  randn_calls :: nat
  empty_calls :: nat

text \<open>The three concrete classes, each with the attributes its constructor adds.\<close>

datatype sde_class =
    SimpleSDE (self_var: real)
  | VESDE (self_s_min: real) (self_s_max: real)
  | VESDE2 (self_s_min: real) (self_s_max: real)

record sde =
  self_opt :: opt
  self_dt :: real
  self_p :: dist_ref
  self_q :: dist_ref
  self_class :: sde_class

text \<open>A policy is a callable with a \<^verbatim>\<open>direction\<close> attribute.\<close>

record 'a policy =
  pol_direction :: string
  pol_call :: "'a \<Rightarrow> real \<Rightarrow> 'a"

section \<open>Diffusion coefficient functions\<close>

text \<open>
  \<^verbatim>\<open>**\<close> is \<open>powr\<close>, which agrees with it on a positive base; the base
  \<open>s_max / s_min\<close> is positive for the bounds \<open>0 < s_min < s_max\<close> the
  configuration is documented to hold.
\<close>

definition compute_sigmas :: "real \<Rightarrow> real \<Rightarrow> real \<Rightarrow> real" where
  "compute_sigmas t s_min s_max = s_min * (s_max / s_min) powr t"

definition compute_sigmas_two_ways :: "real \<Rightarrow> real \<Rightarrow> real \<Rightarrow> real" where
  "compute_sigmas_two_ways t s_min s_max =
     s_min * (s_max / s_min) powr (1 - 2 * \<bar>t - 0.5\<bar>)"

definition compute_ve_g_scale :: "real \<Rightarrow> real \<Rightarrow> real" where
  "compute_ve_g_scale s_min s_max = sqrt (2 * ln (s_max / s_min))"

definition compute_ve_diffusion :: "real \<Rightarrow> real \<Rightarrow> real \<Rightarrow> real" where
  "compute_ve_diffusion t s_min s_max =
     compute_sigmas t s_min s_max * compute_ve_g_scale s_min s_max"

definition compute_ve2_diffusion :: "real \<Rightarrow> real \<Rightarrow> real \<Rightarrow> real" where
  "compute_ve2_diffusion t s_min s_max =
     compute_sigmas_two_ways t s_min s_max * compute_ve_g_scale s_min s_max"

section \<open>Precondition check and constructors\<close>

text \<open>
  \<^verbatim>\<open>assert (ts[1:] > ts[:-1]).all()\<close>: the two slices have the same length, and
  \<^verbatim>\<open>all()\<close> of an empty comparison is true, so grids of length 0 and 1 pass.
\<close>

definition assert_increasing :: "string \<Rightarrow> real list \<Rightarrow> py_error + unit" where
  "assert_increasing name ts =
     (if list_all (\<lambda>(a, b). a > b) (zip (drop 1 ts) (butlast ts)) then Inr ()
      else Inl AssertionError)"

text \<open>
  \<^verbatim>\<open>BaseSDE.__init__\<close> divides the horizon by the step count, which raises on a
  zero count. The class is abstract: the argument \<open>cls\<close> is the concrete class whose
  constructor makes the call, with the attributes that constructor sets afterwards.
\<close>

definition BaseSDE_init :: "opt \<Rightarrow> dist_ref \<Rightarrow> dist_ref \<Rightarrow> sde_class \<Rightarrow> py_error + sde" where
  "BaseSDE_init opt p q cls =
     (if opt_interval opt = 0 then Inl ZeroDivisionError
      else Inr \<lparr>self_opt = opt,
                self_dt = opt_T opt / real_of_int (opt_interval opt),
                self_p = p, self_q = q, self_class = cls\<rparr>)"

text \<open>The keyword argument \<^verbatim>\<open>var=1.0\<close> is \<open>None\<close> when the caller leaves it out.\<close>

definition SimpleSDE_init :: "opt \<Rightarrow> dist_ref \<Rightarrow> dist_ref \<Rightarrow> real option \<Rightarrow> py_error + sde" where
  "SimpleSDE_init opt p q var =
     BaseSDE_init opt p q (SimpleSDE (case var of None \<Rightarrow> 1 | Some v \<Rightarrow> v))"

definition VESDE_init :: "opt \<Rightarrow> dist_ref \<Rightarrow> dist_ref \<Rightarrow> py_error + sde" where
  "VESDE_init opt p q = BaseSDE_init opt p q (VESDE (opt_sigma_min opt) (opt_sigma_max opt))"

definition VESDE2_init :: "opt \<Rightarrow> dist_ref \<Rightarrow> dist_ref \<Rightarrow> py_error + sde" where
  "VESDE2_init opt p q = BaseSDE_init opt p q (VESDE2 (opt_sigma_min opt) (opt_sigma_max opt))"

text \<open>
  The factory looks the name up with \<^verbatim>\<open>dict.get\<close> and calls the result; for a name
  that is not a key the result is \<^verbatim>\<open>None\<close>, and calling it raises
  \<^verbatim>\<open>TypeError\<close>. The message printed on the console is not modelled.
\<close>

definition build :: "opt \<Rightarrow> dist_ref \<Rightarrow> dist_ref \<Rightarrow> py_error + sde" where
  "build opt p q =
     (case map_of [(''ve'', VESDE_init),
                   (''ve2'', VESDE2_init),
                   (''simple'', \<lambda>opt p q. SimpleSDE_init opt p q None)] (opt_sde_type opt) of
        None \<Rightarrow> Inl TypeError
      | Some cls \<Rightarrow> cls opt p q)"

section \<open>The base engine\<close>

text \<open>\<^verbatim>\<open>self._f\<close> and \<^verbatim>\<open>self._g\<close>, dispatched on the class of the instance.\<close>

definition SimpleSDE_priv_f :: "'a::real_vector \<Rightarrow> real \<Rightarrow> 'a" where
  "SimpleSDE_priv_f x t = 0"

definition SimpleSDE_priv_g :: "real \<Rightarrow> real \<Rightarrow> real" where
  "SimpleSDE_priv_g var t = var"

definition VESDE_priv_f :: "'a::real_vector \<Rightarrow> real \<Rightarrow> 'a" where
  "VESDE_priv_f x t = 0"

definition VESDE_priv_g :: "real \<Rightarrow> real \<Rightarrow> real \<Rightarrow> real" where
  "VESDE_priv_g s_min s_max t = compute_ve_diffusion t s_min s_max"

definition VESDE2_priv_f :: "'a::real_vector \<Rightarrow> real \<Rightarrow> 'a" where
  "VESDE2_priv_f x t = 0"

definition VESDE2_priv_g :: "real \<Rightarrow> real \<Rightarrow> real \<Rightarrow> real" where
  "VESDE2_priv_g s_min s_max t = compute_ve2_diffusion t s_min s_max"

definition priv_f :: "sde \<Rightarrow> 'a::real_vector \<Rightarrow> real \<Rightarrow> 'a" where
  "priv_f self x t =
     (case self_class self of
        SimpleSDE var \<Rightarrow> SimpleSDE_priv_f x t
      | VESDE s_min s_max \<Rightarrow> VESDE_priv_f x t
      | VESDE2 s_min s_max \<Rightarrow> VESDE2_priv_f x t)"

definition priv_g :: "sde \<Rightarrow> real \<Rightarrow> real" where
  "priv_g self t =
     (case self_class self of
        SimpleSDE var \<Rightarrow> SimpleSDE_priv_g var t
      | VESDE s_min s_max \<Rightarrow> VESDE_priv_g s_min s_max t
      | VESDE2 s_min s_max \<Rightarrow> VESDE2_priv_g s_min s_max t)"

text \<open>
  \<^verbatim>\<open>BaseSDE.f\<close> is written in the abstract base class, over whatever \<^verbatim>\<open>_f\<close> the
  class of the instance supplies. \<open>BaseSDE_f_of\<close> is that method with \<^verbatim>\<open>self._f\<close>
  as the argument \<open>f_impl\<close>; \<open>BaseSDE_f\<close> is the method of an instance of one of the
  three classes of this module.
\<close>

definition BaseSDE_f_of ::
  "('a::real_vector \<Rightarrow> real \<Rightarrow> 'a) \<Rightarrow> 'a \<Rightarrow> real \<Rightarrow> string \<Rightarrow> 'a" where
  "BaseSDE_f_of f_impl x t direction =
     (let sign = (if direction = ''forward'' then 1 else - 1) :: real
      in sign *\<^sub>R f_impl x t)"

definition BaseSDE_f :: "sde \<Rightarrow> 'a::real_vector \<Rightarrow> real \<Rightarrow> string \<Rightarrow> 'a" where
  "BaseSDE_f self x t direction = BaseSDE_f_of (priv_f self) x t direction"

definition BaseSDE_g :: "sde \<Rightarrow> real \<Rightarrow> real" where
  "BaseSDE_g self t = priv_g self t"

text \<open>
  \<^verbatim>\<open>torch.randn_like(x)*np.sqrt(dt)\<close>: one draw from the random source. The step
  size is documented to be positive (on a negative one \<^verbatim>\<open>np.sqrt\<close> gives NaN,
  which the reals do not have).
\<close>

definition BaseSDE_dw ::
  "sde \<Rightarrow> 'a::real_vector \<Rightarrow> real option \<Rightarrow> 'a world \<Rightarrow> 'a \<times> 'a world" where
  "BaseSDE_dw self x dt w =
     (let dt = (case dt of None \<Rightarrow> self_dt self | Some d \<Rightarrow> d)
      in (sqrt dt *\<^sub>R randn_samples w (randn_calls w),
          w\<lparr>randn_calls := randn_calls w + 1\<rparr>))"

definition BaseSDE_propagate ::
  "sde \<Rightarrow> real \<Rightarrow> 'a::real_vector \<Rightarrow> 'a \<Rightarrow> string \<Rightarrow> 'a option \<Rightarrow> 'a option \<Rightarrow> real option
     \<Rightarrow> 'a world \<Rightarrow> 'a \<times> 'a world" where
  "BaseSDE_propagate self t x z direction f dw dt w =
     (let g = BaseSDE_g self t;
          f = (case f of None \<Rightarrow> BaseSDE_f self x t direction | Some f \<Rightarrow> f);
          dt = (case dt of None \<Rightarrow> self_dt self | Some d \<Rightarrow> d);
          (dw, w) = (case dw of None \<Rightarrow> BaseSDE_dw self x (Some dt) w | Some d \<Rightarrow> (d, w))
      in (x + dt *\<^sub>R (f + g *\<^sub>R z) + g *\<^sub>R dw, w))"

section \<open>Trajectory simulation\<close>

definition dist_sample :: "dist_ref \<Rightarrow> 'a world \<Rightarrow> 'a \<times> 'a world" where
  "dist_sample d w =
     (dist_samples w d (dist_calls w d),
      w\<lparr>dist_calls := (dist_calls w)(d := dist_calls w d + 1)\<rparr>)"

text \<open>
  A buffer of \<^verbatim>\<open>torch.empty\<close> holds one slot for each grid index; a slot is
  \<open>None\<close> until it is written.
\<close>

definition torch_empty :: "nat \<Rightarrow> 'a world \<Rightarrow> 'a option list \<times> 'a world" where
  "torch_empty n w = (replicate n None, w\<lparr>empty_calls := empty_calls w + 1\<rparr>)"

text \<open>What the loop of \<^verbatim>\<open>sample_traj\<close> carries from one step to the next.\<close>

record 'a loop_state =
  ls_x :: 'a
  ls_xs :: "'a option list option"
  ls_zs :: "'a option list option"
  ls_world :: "'a world"

text \<open>
  One pass through the body of the loop, at index \<open>idx\<close> and grid value \<open>t\<close>.
  \<open>t'\<close> is the local \<^verbatim>\<open>_t\<close>; nothing below its assignment reads it. The slot
  \<open>t_idx\<close> is in range, since \<open>idx\<close> enumerates the grid; with \<open>save_traj\<close> the two
  buffers are not \<open>None\<close>.
\<close>

definition loop_body ::
  "sde \<Rightarrow> 'a::real_vector policy \<Rightarrow> string \<Rightarrow> real list \<Rightarrow> bool \<Rightarrow> nat \<Rightarrow> real
     \<Rightarrow> 'a loop_state \<Rightarrow> 'a loop_state" where
  "loop_body self policy direction ts save_traj idx t st =
     (let t' = (if int idx = int (length ts) - 1 then t else ts ! (idx + 1));
          x = ls_x st;
          f = BaseSDE_f self x t direction;
          z = pol_call policy x t;
          (dw, w) = BaseSDE_dw self x None (ls_world st);
          t_idx = (if direction = ''forward'' then idx else length ts - idx - 1);
          xs = (if save_traj then map_option (\<lambda>b. b[t_idx := Some x]) (ls_xs st)
                else ls_xs st);
          zs = (if save_traj then map_option (\<lambda>b. b[t_idx := Some z]) (ls_zs st)
                else ls_zs st);
          (x, w) = BaseSDE_propagate self t x z direction (Some f) (Some dw) None w
      in \<lparr>ls_x = x, ls_xs = xs, ls_zs = zs, ls_world = w\<rparr>)"

text \<open>\<^verbatim>\<open>for idx, t in enumerate(_ts)\<close>, from index \<open>idx\<close> over the remaining values.\<close>

fun traj_loop ::
  "sde \<Rightarrow> 'a::real_vector policy \<Rightarrow> string \<Rightarrow> real list \<Rightarrow> bool \<Rightarrow> nat \<Rightarrow> real list
     \<Rightarrow> 'a loop_state \<Rightarrow> 'a loop_state" where
  "traj_loop self policy direction ts save_traj idx [] st = st"
| "traj_loop self policy direction ts save_traj idx (t # rest) st =
     traj_loop self policy direction ts save_traj (idx + 1) rest
       (loop_body self policy direction ts save_traj idx t st)"

text \<open>
  \<^verbatim>\<open>sample_traj\<close>. The arguments \<^verbatim>\<open>corrector\<close> and \<^verbatim>\<open>apply_trick\<close> are never
  read and are left out. \<^verbatim>\<open>_ts\<close> is the grid itself or the grid wrapped in a
  progress bar, which yields the same values. The result is the list
  \<^verbatim>\<open>[xs, zs, x_term]\<close>, paired with the world after the call.
\<close>

definition BaseSDE_sample_traj ::
  "sde \<Rightarrow> real list \<Rightarrow> 'a::real_vector policy \<Rightarrow> bool \<Rightarrow> 'a world
     \<Rightarrow> (py_error + 'a option list option \<times> 'a option list option \<times> 'a) \<times> 'a world" where
  "BaseSDE_sample_traj self ts policy save_traj w =
     (let direction = pol_direction policy
      in if direction \<notin> set [''forward'', ''backward''] then (Inl AssertionError, w)
         else case assert_increasing ''ts'' ts of
           Inl e \<Rightarrow> (Inl e, w)
         | Inr _ \<Rightarrow>
            (let init_dist = (if direction = ''forward'' then self_p self else self_q self);
                 ts = (if direction = ''forward'' then ts else rev ts);
                 (x, w) = dist_sample init_dist w;
                 (xs, w) = (if save_traj then (let (b, w) = torch_empty (length ts) w
                                               in (Some b, w))
                            else (None, w));
                 (zs, w) = (if save_traj then (let (b, w) = torch_empty (length ts) w
                                               in (Some b, w))
                            else (None, w));
                 st = traj_loop self policy direction ts save_traj 0 ts
                        \<lparr>ls_x = x, ls_xs = xs, ls_zs = zs, ls_world = w\<rparr>;
                 x_term = ls_x st
             in (Inr (ls_xs st, ls_zs st, x_term), ls_world st)))"

section \<open>The walk, step by step\<close>

text \<open>
  The state after \<open>k\<close> steps of an Euler-Maruyama walk over the grid \<open>ts\<close> that
  starts at \<open>x0\<close>: step \<open>k\<close> evaluates the drift and the policy at the grid value
  \<open>ts ! k\<close>, passes \<open>tref k\<close> to \<open>BaseSDE_propagate\<close> as its time, and uses the noise
  \<open>noise k\<close>. With \<open>tref = current_time ts\<close> the time passed is the grid value of the
  step itself; with \<open>tref = next_time ts\<close> it is the following grid value, and at
  the last index the same one.
\<close>

fun walk ::
  "sde \<Rightarrow> 'a::real_vector policy \<Rightarrow> string \<Rightarrow> real list \<Rightarrow> (nat \<Rightarrow> real) \<Rightarrow> (nat \<Rightarrow> 'a)
     \<Rightarrow> 'a \<Rightarrow> nat \<Rightarrow> 'a" where
  "walk self policy direction ts tref noise x0 0 = x0"
| "walk self policy direction ts tref noise x0 (Suc k) =
     (let x = walk self policy direction ts tref noise x0 k;
          f = BaseSDE_f self x (ts ! k) direction;
          z = pol_call policy x (ts ! k);
          g = BaseSDE_g self (tref k)
      in x + self_dt self *\<^sub>R (f + g *\<^sub>R z) + g *\<^sub>R (sqrt (self_dt self) *\<^sub>R noise k))"

definition current_time :: "real list \<Rightarrow> nat \<Rightarrow> real" where
  "current_time ts k = ts ! k"

definition next_time :: "real list \<Rightarrow> nat \<Rightarrow> real" where
  "next_time ts k = (if int k = int (length ts) - 1 then ts ! k else ts ! (k + 1))"

text \<open>The grid in the order the walk visits it, and the step at which slot \<open>i\<close> is visited.\<close>

definition traversed :: "string \<Rightarrow> real list \<Rightarrow> real list" where
  "traversed direction ts = (if direction = ''forward'' then ts else rev ts)"

definition visit_step :: "string \<Rightarrow> nat \<Rightarrow> nat \<Rightarrow> nat" where
  "visit_step direction n i = (if direction = ''forward'' then i else n - i - 1)"

text \<open>The initial batch and the noise increments a call of \<^verbatim>\<open>sample_traj\<close> in world \<open>w\<close> draws.\<close>

definition init_batch :: "sde \<Rightarrow> string \<Rightarrow> 'a world \<Rightarrow> 'a" where
  "init_batch self direction w =
     (let d = (if direction = ''forward'' then self_p self else self_q self)
      in dist_samples w d (dist_calls w d))"

definition walk_noise :: "'a world \<Rightarrow> nat \<Rightarrow> 'a" where
  "walk_noise w k = randn_samples w (randn_calls w + k)"

text \<open>
  The state \<^verbatim>\<open>sample_traj\<close> holds when it enters step \<open>k\<close> of a call in world
  \<open>w\<close>: the walk over the traversed grid from the initial batch, each step taking the
  grid value of the step itself as its time.
\<close>

definition state_at_step ::
  "sde \<Rightarrow> 'a::real_vector policy \<Rightarrow> real list \<Rightarrow> 'a world \<Rightarrow> nat \<Rightarrow> 'a" where
  "state_at_step self policy ts w k =
     (let d = pol_direction policy; tsv = traversed d ts
      in walk self policy d tsv (current_time tsv) (walk_noise w) (init_batch self d w) k)"

text \<open>
  The world at the head of the loop: one batch drawn from the initial distribution and,
  with \<open>save_traj\<close>, two buffers allocated.
\<close>

definition start_world :: "sde \<Rightarrow> string \<Rightarrow> bool \<Rightarrow> 'a world \<Rightarrow> 'a world" where
  "start_world self direction save_traj w =
     (let d = (if direction = ''forward'' then self_p self else self_q self)
      in w\<lparr>dist_calls := (dist_calls w)(d := dist_calls w d + 1),
           empty_calls := empty_calls w + (if save_traj then 2 else 0)\<rparr>)"

text \<open>
  The drift as the specification words it, for comparison with \<open>BaseSDE_f_of\<close>: it
  fails (\<open>None\<close>) on a direction that is neither of the two literals.
\<close>

definition BaseSDE_f_spec ::
  "('a::real_vector \<Rightarrow> real \<Rightarrow> 'a) \<Rightarrow> 'a \<Rightarrow> real \<Rightarrow> string \<Rightarrow> 'a option" where
  "BaseSDE_f_spec f_impl x t direction =
     (if direction = ''forward'' then Some (f_impl x t)
      else if direction = ''backward'' then Some (- f_impl x t)
      else None)"

section \<open>Concrete inputs\<close>

definition ex_opt :: opt where
  "ex_opt = \<lparr>opt_T = 1, opt_interval = 1, opt_sde_type = ''ve'',
             opt_sigma_min = 1, opt_sigma_max = 2, opt_train_method = ''joint''\<rparr>"

definition ex_ve :: sde where
  "ex_ve = \<lparr>self_opt = ex_opt, self_dt = 1, self_p = 0, self_q = 1, self_class = VESDE 1 2\<rparr>"

definition ex_simple :: "real \<Rightarrow> sde" where
  "ex_simple var =
     \<lparr>self_opt = ex_opt, self_dt = 1, self_p = 0, self_q = 1, self_class = SimpleSDE var\<rparr>"

text \<open>The \<^verbatim>\<open>_f\<close> of a subclass whose drift is the state itself.\<close>

definition ex_drift :: "real \<Rightarrow> real \<Rightarrow> real" where
  "ex_drift x t = x"

definition ex_policy :: "string \<Rightarrow> real policy" where
  "ex_policy direction = \<lparr>pol_direction = direction, pol_call = (\<lambda>x t. 1)\<rparr>"

definition ex_world :: "real world" where
  "ex_world = \<lparr>dist_samples = (\<lambda>d k. if d = 0 then 5 else 7), dist_calls = (\<lambda>d. 0),
               randn_samples = (\<lambda>k. 0), randn_calls = 0, empty_calls = 0\<rparr>"

section \<open>Theorems\<close>

subsection \<open>The loop of the simulator\<close>

lemma assert_increasing_iff:
  "assert_increasing name ts = Inr () \<longleftrightarrow> sorted_wrt (<) ts"
proof (induction ts rule: induct_list012)
  case 1
  then show ?case by (simp add: assert_increasing_def)
next
  case (2 x)
  then show ?case by (simp add: assert_increasing_def)
next
  case (3 x y zs)
  then show ?case by (auto simp add: assert_increasing_def split: if_splits)
qed

lemma loop_body_eq:
  "loop_body self policy direction ts save_traj idx t st =
     (let x = ls_x st; w = ls_world st; z = pol_call policy x t; g = BaseSDE_g self t;
          t_idx = (if direction = ''forward'' then idx else length ts - idx - 1)
      in \<lparr>ls_x = x + self_dt self *\<^sub>R (BaseSDE_f self x t direction + g *\<^sub>R z)
                   + g *\<^sub>R (sqrt (self_dt self) *\<^sub>R randn_samples w (randn_calls w)),
          ls_xs = (if save_traj then map_option (\<lambda>b. b[t_idx := Some x]) (ls_xs st) else ls_xs st),
          ls_zs = (if save_traj then map_option (\<lambda>b. b[t_idx := Some z]) (ls_zs st) else ls_zs st),
          ls_world = w\<lparr>randn_calls := randn_calls w + 1\<rparr>\<rparr>)"
  by (simp add: loop_body_def BaseSDE_dw_def BaseSDE_propagate_def Let_def)

lemma loop_body_x:
  assumes "ls_x st = walk self policy direction ts (current_time ts) (walk_noise w0) x0 idx"
    and "ls_world st = w0\<lparr>randn_calls := randn_calls w0 + idx\<rparr>"
  shows "ls_x (loop_body self policy direction ts save_traj idx (ts ! idx) st) =
           walk self policy direction ts (current_time ts) (walk_noise w0) x0 (Suc idx)"
  using assms by (simp add: loop_body_eq Let_def current_time_def walk_noise_def)

lemma loop_body_world:
  assumes "ls_world st = w0\<lparr>randn_calls := randn_calls w0 + idx\<rparr>"
  shows "ls_world (loop_body self policy direction ts save_traj idx t st) =
           w0\<lparr>randn_calls := randn_calls w0 + Suc idx\<rparr>"
  using assms by (simp add: loop_body_eq Let_def)

lemma traj_loop_x_world:
  assumes "n = length ts - idx" and "idx \<le> length ts"
    and "ls_x st = walk self policy direction ts (current_time ts) (walk_noise w0) x0 idx"
    and "ls_world st = w0\<lparr>randn_calls := randn_calls w0 + idx\<rparr>"
  shows "ls_x (traj_loop self policy direction ts save_traj idx (drop idx ts) st) =
           walk self policy direction ts (current_time ts) (walk_noise w0) x0 (length ts)
       \<and> ls_world (traj_loop self policy direction ts save_traj idx (drop idx ts) st) =
           w0\<lparr>randn_calls := randn_calls w0 + length ts\<rparr>"
  using assms
proof (induction n arbitrary: idx st)
  case 0
  then show ?case by simp
next
  case (Suc n)
  then have lt: "idx < length ts" by simp
  then have d: "drop idx ts = ts ! idx # drop (Suc idx) ts"
    by (simp add: Cons_nth_drop_Suc)
  let ?st = "loop_body self policy direction ts save_traj idx (ts ! idx) st"
  have "ls_x (traj_loop self policy direction ts save_traj (Suc idx) (drop (Suc idx) ts) ?st) =
           walk self policy direction ts (current_time ts) (walk_noise w0) x0 (length ts)
       \<and> ls_world (traj_loop self policy direction ts save_traj (Suc idx) (drop (Suc idx) ts) ?st) =
           w0\<lparr>randn_calls := randn_calls w0 + length ts\<rparr>"
  proof (rule Suc.IH)
    show "n = length ts - Suc idx" using Suc.prems(1) by simp
    show "Suc idx \<le> length ts" using lt by simp
    show "ls_x ?st = walk self policy direction ts (current_time ts) (walk_noise w0) x0 (Suc idx)"
      using Suc.prems(3,4) by (rule loop_body_x)
    show "ls_world ?st = w0\<lparr>randn_calls := randn_calls w0 + Suc idx\<rparr>"
      using Suc.prems(4) by (rule loop_body_world)
  qed
  then show ?case by (simp add: d)
qed


lemma visit_step_flip:
  "i < n \<Longrightarrow> idx < n \<Longrightarrow> (visit_step d n i = idx) = (i = visit_step d n idx)"
  by (auto simp add: visit_step_def)

lemma visit_step_less: "i < n \<Longrightarrow> visit_step d n i < n"
  by (simp add: visit_step_def)

lemma loop_body_bufs:
  assumes lt: "idx < length ts"
    and x: "ls_x st = W idx"
    and bx: "ls_xs st = Some bx" "length bx = length ts"
    and bz: "ls_zs st = Some bz" "length bz = length ts"
    and old: "\<forall>i<length ts. visit_step direction (length ts) i < idx \<longrightarrow>
                bx ! i = Some (W (visit_step direction (length ts) i))
              \<and> bz ! i = Some (pol_call policy (W (visit_step direction (length ts) i))
                                 (ts ! visit_step direction (length ts) i))"
  shows "\<exists>bx' bz'. ls_xs (loop_body self policy direction ts True idx (ts ! idx) st) = Some bx'
           \<and> ls_zs (loop_body self policy direction ts True idx (ts ! idx) st) = Some bz'
           \<and> length bx' = length ts \<and> length bz' = length ts
           \<and> (\<forall>i<length ts. visit_step direction (length ts) i < Suc idx \<longrightarrow>
                bx' ! i = Some (W (visit_step direction (length ts) i))
              \<and> bz' ! i = Some (pol_call policy (W (visit_step direction (length ts) i))
                                  (ts ! visit_step direction (length ts) i)))"
proof -
  let ?n = "length ts"
  let ?j = "visit_step direction ?n idx"
  have j: "?j < ?n" using lt by (rule visit_step_less)
  have tidx: "(if direction = ''forward'' then idx else ?n - idx - 1) = ?j"
    by (simp add: visit_step_def)
  have xs': "ls_xs (loop_body self policy direction ts True idx (ts ! idx) st) =
               Some (bx[?j := Some (W idx)])"
    using x bx(1) by (simp add: loop_body_eq Let_def tidx)
  have zs': "ls_zs (loop_body self policy direction ts True idx (ts ! idx) st) =
               Some (bz[?j := Some (pol_call policy (W idx) (ts ! idx))])"
    using x bz(1) by (simp add: loop_body_eq Let_def tidx)
  have new: "bx[?j := Some (W idx)] ! i = Some (W (visit_step direction ?n i))
           \<and> bz[?j := Some (pol_call policy (W idx) (ts ! idx))] ! i =
               Some (pol_call policy (W (visit_step direction ?n i))
                      (ts ! visit_step direction ?n i))"
    if i: "i < ?n" and v: "visit_step direction ?n i < Suc idx" for i
  proof (cases "visit_step direction ?n i = idx")
    case True
    with i lt have "i = ?j" by (simp add: visit_step_flip)
    with True j bx(2) bz(2) show ?thesis by simp
  next
    case False
    with v have v': "visit_step direction ?n i < idx" by simp
    from False i lt have "i \<noteq> ?j" by (simp add: visit_step_flip)
    with old i v' show ?thesis by simp
  qed
  show ?thesis
    using xs' zs' bx(2) bz(2) new by simp
qed

lemma traj_loop_bufs:
  assumes "n = length ts - idx" and "idx \<le> length ts"
    and "ls_x st = walk self policy direction ts (current_time ts) (walk_noise w0) x0 idx"
    and "ls_world st = w0\<lparr>randn_calls := randn_calls w0 + idx\<rparr>"
    and "ls_xs st = Some bx" and "length bx = length ts"
    and "ls_zs st = Some bz" and "length bz = length ts"
    and "\<forall>i<length ts. visit_step direction (length ts) i < idx \<longrightarrow>
           bx ! i = Some (walk self policy direction ts (current_time ts) (walk_noise w0) x0
                           (visit_step direction (length ts) i))
         \<and> bz ! i = Some (pol_call policy
                           (walk self policy direction ts (current_time ts) (walk_noise w0) x0
                             (visit_step direction (length ts) i))
                           (ts ! visit_step direction (length ts) i))"
  shows "\<exists>bx' bz'.
           ls_xs (traj_loop self policy direction ts True idx (drop idx ts) st) = Some bx'
         \<and> ls_zs (traj_loop self policy direction ts True idx (drop idx ts) st) = Some bz'
         \<and> length bx' = length ts \<and> length bz' = length ts
         \<and> (\<forall>i<length ts.
               bx' ! i = Some (walk self policy direction ts (current_time ts) (walk_noise w0) x0
                                (visit_step direction (length ts) i))
             \<and> bz' ! i = Some (pol_call policy
                                (walk self policy direction ts (current_time ts) (walk_noise w0) x0
                                  (visit_step direction (length ts) i))
                                (ts ! visit_step direction (length ts) i)))"
  using assms
proof (induction n arbitrary: idx st bx bz)
  case 0
  then have "idx = length ts" by simp
  with 0 show ?case by (simp add: visit_step_less)
next
  case (Suc n)
  then have lt: "idx < length ts" by simp
  then have d: "drop idx ts = ts ! idx # drop (Suc idx) ts"
    by (simp add: Cons_nth_drop_Suc)
  let ?st = "loop_body self policy direction ts True idx (ts ! idx) st"
  let ?W = "walk self policy direction ts (current_time ts) (walk_noise w0) x0"
  from loop_body_bufs [where W = ?W, OF lt Suc.prems(3) Suc.prems(5-9)]
  obtain bx' bz' where b: "ls_xs ?st = Some bx'" "length bx' = length ts"
      "ls_zs ?st = Some bz'" "length bz' = length ts"
      "\<forall>i<length ts. visit_step direction (length ts) i < Suc idx \<longrightarrow>
                bx' ! i = Some (?W (visit_step direction (length ts) i))
              \<and> bz' ! i = Some (pol_call policy (?W (visit_step direction (length ts) i))
                                  (ts ! visit_step direction (length ts) i))"
    by blast
  have n: "n = length ts - Suc idx" using Suc.prems(1) by simp
  have le: "Suc idx \<le> length ts" using lt by simp
  have x: "ls_x ?st = ?W (Suc idx)"
    using Suc.prems(3,4) by (rule loop_body_x)
  have w: "ls_world ?st = w0\<lparr>randn_calls := randn_calls w0 + Suc idx\<rparr>"
    using Suc.prems(4) by (rule loop_body_world)
  from Suc.IH [OF n le x w b] show ?case by (simp add: d)
qed

subsection \<open>The simulator on a valid call\<close>

lemma sample_traj_valid:
  assumes "pol_direction policy \<in> {''forward'', ''backward''}" and "sorted_wrt (<) ts"
  shows "BaseSDE_sample_traj self ts policy save_traj w =
     (let d = pol_direction policy;
          tsv = traversed d ts;
          buf = (if save_traj then Some (replicate (length ts) None) else None);
          st = traj_loop self policy d tsv save_traj 0 tsv
                 \<lparr>ls_x = init_batch self d w, ls_xs = buf, ls_zs = buf,
                  ls_world = start_world self d save_traj w\<rparr>
      in (Inr (ls_xs st, ls_zs st, ls_x st), ls_world st))"
proof -
  from assms(2) have a: "assert_increasing ''ts'' ts = Inr ()"
    by (simp add: assert_increasing_iff)
  from assms(1) have m: "pol_direction policy \<in> set [''forward'', ''backward'']"
    by simp
  show ?thesis
    unfolding BaseSDE_sample_traj_def Let_def a
    using m
    by (simp add: traversed_def init_batch_def start_world_def dist_sample_def torch_empty_def Let_def)
qed

lemma walk_noise_start_world:
  "walk_noise (start_world self d save_traj w) = walk_noise w"
  by (rule ext) (simp add: walk_noise_def start_world_def Let_def)

lemma sample_traj_x_term:
  assumes "pol_direction policy \<in> {''forward'', ''backward''}" and "sorted_wrt (<) ts"
  shows "\<exists>xs zs. BaseSDE_sample_traj self ts policy save_traj w =
     (Inr (xs, zs,
           walk self policy (pol_direction policy) (traversed (pol_direction policy) ts)
             (current_time (traversed (pol_direction policy) ts)) (walk_noise w)
             (init_batch self (pol_direction policy) w) (length ts)),
      (start_world self (pol_direction policy) save_traj w)
        \<lparr>randn_calls := randn_calls w + length ts\<rparr>)"
proof -
  let ?d = "pol_direction policy"
  let ?tsv = "traversed ?d ts"
  let ?w1 = "start_world self ?d save_traj w"
  let ?buf = "if save_traj then Some (replicate (length ts) None) else None"
  let ?st0 = "\<lparr>ls_x = init_batch self ?d w, ls_xs = ?buf, ls_zs = ?buf, ls_world = ?w1\<rparr>"
  have len: "length ?tsv = length ts" by (simp add: traversed_def)
  have rc: "randn_calls ?w1 = randn_calls w" by (simp add: start_world_def Let_def)
  have "ls_x (traj_loop self policy ?d ?tsv save_traj 0 (drop 0 ?tsv) ?st0) =
           walk self policy ?d ?tsv (current_time ?tsv) (walk_noise ?w1) (init_batch self ?d w) (length ?tsv)
       \<and> ls_world (traj_loop self policy ?d ?tsv save_traj 0 (drop 0 ?tsv) ?st0) =
           ?w1\<lparr>randn_calls := randn_calls ?w1 + length ?tsv\<rparr>"
    by (rule traj_loop_x_world [OF refl]) simp_all
  then have "ls_x (traj_loop self policy ?d ?tsv save_traj 0 ?tsv ?st0) =
           walk self policy ?d ?tsv (current_time ?tsv) (walk_noise w) (init_batch self ?d w) (length ts)
       \<and> ls_world (traj_loop self policy ?d ?tsv save_traj 0 ?tsv ?st0) =
           ?w1\<lparr>randn_calls := randn_calls w + length ts\<rparr>"
    by (simp only: drop_0 len rc walk_noise_start_world)
  then show ?thesis
    unfolding sample_traj_valid [OF assms] Let_def by simp
qed

lemma sample_traj_bufs:
  assumes "pol_direction policy \<in> {''forward'', ''backward''}" and "sorted_wrt (<) ts"
  shows "\<exists>xs zs x_term w'.
           BaseSDE_sample_traj self ts policy True w = (Inr (Some xs, Some zs, x_term), w')
         \<and> length xs = length ts \<and> length zs = length ts
         \<and> (\<forall>i<length ts.
               xs ! i = Some (walk self policy (pol_direction policy)
                               (traversed (pol_direction policy) ts)
                               (current_time (traversed (pol_direction policy) ts)) (walk_noise w)
                               (init_batch self (pol_direction policy) w)
                               (visit_step (pol_direction policy) (length ts) i))
             \<and> zs ! i = Some (pol_call policy
                               (walk self policy (pol_direction policy)
                                 (traversed (pol_direction policy) ts)
                                 (current_time (traversed (pol_direction policy) ts)) (walk_noise w)
                                 (init_batch self (pol_direction policy) w)
                                 (visit_step (pol_direction policy) (length ts) i))
                               (traversed (pol_direction policy) ts
                                  ! visit_step (pol_direction policy) (length ts) i)))"
proof -
  let ?d = "pol_direction policy"
  let ?tsv = "traversed ?d ts"
  let ?w1 = "start_world self ?d True w"
  let ?buf = "Some (replicate (length ts) None)"
  let ?st0 = "\<lparr>ls_x = init_batch self ?d w, ls_xs = ?buf, ls_zs = ?buf, ls_world = ?w1\<rparr>"
  have len: "length ?tsv = length ts" by (simp add: traversed_def)
  have "\<exists>bx' bz'.
           ls_xs (traj_loop self policy ?d ?tsv True 0 (drop 0 ?tsv) ?st0) = Some bx'
         \<and> ls_zs (traj_loop self policy ?d ?tsv True 0 (drop 0 ?tsv) ?st0) = Some bz'
         \<and> length bx' = length ?tsv \<and> length bz' = length ?tsv
         \<and> (\<forall>i<length ?tsv.
               bx' ! i = Some (walk self policy ?d ?tsv (current_time ?tsv) (walk_noise ?w1)
                                (init_batch self ?d w) (visit_step ?d (length ?tsv) i))
             \<and> bz' ! i = Some (pol_call policy
                                (walk self policy ?d ?tsv (current_time ?tsv) (walk_noise ?w1)
                                  (init_batch self ?d w) (visit_step ?d (length ?tsv) i))
                                (?tsv ! visit_step ?d (length ?tsv) i)))"
    by (rule traj_loop_bufs [OF refl, where bx = "replicate (length ts) None"
          and bz = "replicate (length ts) None"]) (simp_all add: len)
  then show ?thesis
    unfolding sample_traj_valid [OF assms] Let_def
    by (simp only: drop_0 len walk_noise_start_world if_True) auto
qed

lemma traversed_visit_step:
  assumes "d \<in> {''forward'', ''backward''}" and "i < length ts"
  shows "traversed d ts ! visit_step d (length ts) i = ts ! i"
  using assms by (auto simp add: traversed_def visit_step_def rev_nth)

lemma sorted_first_least:
  assumes "sorted_wrt (<) ts" and "i < length ts"
  shows "ts ! 0 \<le> (ts ! i :: real)"
proof (cases i)
  case 0
  then show ?thesis by simp
next
  case (Suc j)
  with assms have "ts ! 0 < ts ! i"
    by (simp add: sorted_wrt_iff_nth_less)
  then show ?thesis by simp
qed

subsection \<open>Endpoints of the two schedules\<close>

text \<open>
  C6. For all bounds with \<open>0 < s_min < s_max\<close>, \<open>compute_sigmas\<close> is \<open>s_min\<close> at
  time 0 and \<open>s_max\<close> at time 1, and \<open>compute_sigmas_two_ways\<close> is \<open>s_max\<close> at
  time 0.5 and \<open>s_min\<close> at times 0 and 1.
\<close>

theorem compute_sigmas_endpoints:
  assumes "0 < s_min" and "s_min < s_max"
  shows "compute_sigmas 0 s_min s_max = s_min
       \<and> compute_sigmas 1 s_min s_max = s_max
       \<and> compute_sigmas_two_ways 0.5 s_min s_max = s_max
       \<and> compute_sigmas_two_ways 0 s_min s_max = s_min
       \<and> compute_sigmas_two_ways 1 s_min s_max = s_min"
proof -
  from assms have r: "0 < s_max / s_min" and nz: "s_min \<noteq> 0"
    by simp_all
  from assms have p0: "(s_max / s_min) powr 0 = 1"
    by simp
  from r have p1: "(s_max / s_min) powr 1 = s_max / s_min"
    by (intro powr_one) simp
  have e0: "1 - 2 * \<bar>(0::real) - 0.5\<bar> = 0" and e1: "1 - 2 * \<bar>(1::real) - 0.5\<bar> = 0"
    and eh: "1 - 2 * \<bar>(0.5::real) - 0.5\<bar> = 1"
    by simp_all
  show ?thesis
    unfolding compute_sigmas_def compute_sigmas_two_ways_def e0 e1 eh p0 p1
    using nz by simp
qed

theorem compute_sigmas_endpoints_witness:
  "(0::real) < 1 \<and> (1::real) < 2
   \<and> compute_sigmas 0 1 2 = 1 \<and> compute_sigmas 1 1 2 = 2
   \<and> compute_sigmas_two_ways 0.5 1 2 = 2
   \<and> compute_sigmas_two_ways 0 1 2 = 1 \<and> compute_sigmas_two_ways 1 1 2 = 1"
  using compute_sigmas_endpoints [of 1 2] by simp

subsection \<open>Buffers are filled in time order\<close>

text \<open>
  C3. For every strictly increasing grid \<open>ts\<close> and either direction, with
  \<open>save_traj\<close> the call returns two buffers with one slot for each grid index, and
  slot \<open>i\<close> holds the state and the control recorded at the grid value \<open>ts ! i\<close> of
  the grid as it was passed: the walk reaches that value at step
  \<open>visit_step direction (length ts) i\<close>, which is \<open>i\<close> forward and the mirrored index
  backward; the state in the slot is the one held at that step, and the control is the
  policy applied to it at \<open>ts ! i\<close>. Slot 0 belongs to the smallest grid value.
\<close>

theorem sample_traj_buffers_in_time_order:
  assumes "pol_direction policy \<in> {''forward'', ''backward''}" and "sorted_wrt (<) ts"
  shows "\<exists>xs zs x_term w'.
           BaseSDE_sample_traj self ts policy True w = (Inr (Some xs, Some zs, x_term), w')
         \<and> length xs = length ts \<and> length zs = length ts
         \<and> (\<forall>i<length ts.
               traversed (pol_direction policy) ts
                 ! visit_step (pol_direction policy) (length ts) i = ts ! i
             \<and> xs ! i = Some (state_at_step self policy ts w
                               (visit_step (pol_direction policy) (length ts) i))
             \<and> zs ! i = Some (pol_call policy
                               (state_at_step self policy ts w
                                 (visit_step (pol_direction policy) (length ts) i))
                               (ts ! i))
             \<and> ts ! 0 \<le> ts ! i)"
proof -
  from sample_traj_bufs [OF assms, of self w]
  obtain xs zs x_term w' where
    r: "BaseSDE_sample_traj self ts policy True w = (Inr (Some xs, Some zs, x_term), w')"
    and l: "length xs = length ts" "length zs = length ts"
    and b: "\<forall>i<length ts.
               xs ! i = Some (state_at_step self policy ts w
                               (visit_step (pol_direction policy) (length ts) i))
             \<and> zs ! i = Some (pol_call policy
                               (state_at_step self policy ts w
                                 (visit_step (pol_direction policy) (length ts) i))
                               (traversed (pol_direction policy) ts
                                  ! visit_step (pol_direction policy) (length ts) i))"
    unfolding state_at_step_def Let_def by blast
  have "\<forall>i<length ts.
               traversed (pol_direction policy) ts
                 ! visit_step (pol_direction policy) (length ts) i = ts ! i
             \<and> xs ! i = Some (state_at_step self policy ts w
                               (visit_step (pol_direction policy) (length ts) i))
             \<and> zs ! i = Some (pol_call policy
                               (state_at_step self policy ts w
                                 (visit_step (pol_direction policy) (length ts) i))
                               (ts ! i))
             \<and> ts ! 0 \<le> ts ! i"
  proof (intro allI impI)
    fix i assume i: "i < length ts"
    have t: "traversed (pol_direction policy) ts
                 ! visit_step (pol_direction policy) (length ts) i = ts ! i"
      using assms(1) i by (rule traversed_visit_step)
    have s: "ts ! 0 \<le> ts ! i"
      using assms(2) i by (rule sorted_first_least)
    from b i t s show "traversed (pol_direction policy) ts
                 ! visit_step (pol_direction policy) (length ts) i = ts ! i
             \<and> xs ! i = Some (state_at_step self policy ts w
                               (visit_step (pol_direction policy) (length ts) i))
             \<and> zs ! i = Some (pol_call policy
                               (state_at_step self policy ts w
                                 (visit_step (pol_direction policy) (length ts) i))
                               (ts ! i))
             \<and> ts ! 0 \<le> ts ! i"
      by simp
  qed
  with r l show ?thesis by blast
qed

theorem sample_traj_buffers_in_time_order_witness:
  "pol_direction (ex_policy ''backward'') \<in> {''forward'', ''backward''}
   \<and> sorted_wrt (<) [0, 1 :: real]
   \<and> (\<exists>xs zs x_term w'.
         BaseSDE_sample_traj (ex_simple 2) [0, 1] (ex_policy ''backward'') True ex_world =
           (Inr (Some xs, Some zs, x_term), w')
       \<and> xs ! 0 = Some (state_at_step (ex_simple 2) (ex_policy ''backward'') [0, 1] ex_world 1)
       \<and> xs ! 1 = Some (state_at_step (ex_simple 2) (ex_policy ''backward'') [0, 1] ex_world 0)
       \<and> xs ! 1 = Some 7 \<and> xs ! 0 = Some 9)"
proof -
  have h1: "pol_direction (ex_policy ''backward'') \<in> {''forward'', ''backward''}"
    by (simp add: ex_policy_def)
  have h2: "sorted_wrt (<) [0, 1 :: real]"
    by simp
  have v: "visit_step (pol_direction (ex_policy ''backward'')) (length [0, 1 :: real]) 0 = 1"
      "visit_step (pol_direction (ex_policy ''backward'')) (length [0, 1 :: real]) 1 = 0"
    by (simp_all add: visit_step_def ex_policy_def)
  have s0: "state_at_step (ex_simple 2) (ex_policy ''backward'') [0, 1] ex_world 0 = 7"
    by (simp add: state_at_step_def init_batch_def ex_simple_def ex_policy_def ex_world_def)
  have s1: "state_at_step (ex_simple 2) (ex_policy ''backward'') [0, 1] ex_world 1 = 9"
    by (simp add: state_at_step_def init_batch_def traversed_def current_time_def walk_noise_def
          ex_simple_def ex_policy_def ex_world_def BaseSDE_f_def BaseSDE_f_of_def BaseSDE_g_def
          priv_f_def priv_g_def
          SimpleSDE_priv_f_def SimpleSDE_priv_g_def)
  from sample_traj_buffers_in_time_order [OF h1 h2, of "ex_simple 2" ex_world]
  obtain xs zs x_term w' where
    r: "BaseSDE_sample_traj (ex_simple 2) [0, 1] (ex_policy ''backward'') True ex_world =
           (Inr (Some xs, Some zs, x_term), w')"
    and b: "\<forall>i<length [0, 1 :: real].
               xs ! i = Some (state_at_step (ex_simple 2) (ex_policy ''backward'') [0, 1] ex_world
                               (visit_step (pol_direction (ex_policy ''backward'')) (length [0, 1 :: real]) i))"
    by blast
  from b have "xs ! 0 = Some (state_at_step (ex_simple 2) (ex_policy ''backward'') [0, 1] ex_world 1)"
    using v(1) by (metis length_Cons zero_less_Suc)
  moreover from b have "xs ! 1 = Some (state_at_step (ex_simple 2) (ex_policy ''backward'') [0, 1] ex_world 0)"
    using v(2) by (metis One_nat_def length_Cons lessI list.size(3))
  ultimately show ?thesis using h1 h2 r s0 s1 by auto
qed

subsection \<open>The time of each step\<close>

text \<open>
  C2, as amended. For every strictly increasing grid and either direction,
  \<^verbatim>\<open>sample_traj\<close> returns as final state the state of the walk over the traversed
  grid after \<open>length ts\<close> steps in which each step \<open>idx\<close> is one call of
  \<open>BaseSDE_propagate\<close> whose time argument is the grid value of the step itself,
  \<open>traversed direction ts ! idx\<close>, with the drift and the control computed at that
  same value; the following grid value, which the loop stores in \<^verbatim>\<open>_t\<close>, is not
  used.
\<close>

theorem sample_traj_steps_at_current_time:
  assumes "pol_direction policy \<in> {''forward'', ''backward''}" and "sorted_wrt (<) ts"
  shows "(\<exists>xs zs w'. BaseSDE_sample_traj self ts policy save_traj w =
            (Inr (xs, zs,
                  walk self policy (pol_direction policy) (traversed (pol_direction policy) ts)
                    (current_time (traversed (pol_direction policy) ts)) (walk_noise w)
                    (init_batch self (pol_direction policy) w) (length ts)), w'))
       \<and> (\<forall>idx<length ts. \<forall>w'.
            walk self policy (pol_direction policy) (traversed (pol_direction policy) ts)
              (current_time (traversed (pol_direction policy) ts)) (walk_noise w)
              (init_batch self (pol_direction policy) w) (Suc idx) =
            (let t = traversed (pol_direction policy) ts ! idx;
                 x = walk self policy (pol_direction policy) (traversed (pol_direction policy) ts)
                       (current_time (traversed (pol_direction policy) ts)) (walk_noise w)
                       (init_batch self (pol_direction policy) w) idx;
                 f = BaseSDE_f self x t (pol_direction policy);
                 z = pol_call policy x t;
                 dw = sqrt (self_dt self) *\<^sub>R walk_noise w idx
             in fst (BaseSDE_propagate self t x z (pol_direction policy)
                       (Some f) (Some dw) None w')))"
proof -
  from sample_traj_x_term [OF assms, of self save_traj w]
  have a: "\<exists>xs zs w'. BaseSDE_sample_traj self ts policy save_traj w =
            (Inr (xs, zs,
                  walk self policy (pol_direction policy) (traversed (pol_direction policy) ts)
                    (current_time (traversed (pol_direction policy) ts)) (walk_noise w)
                    (init_batch self (pol_direction policy) w) (length ts)), w')"
    by blast
  have b: "walk self policy d tsv (current_time tsv) noise x0 (Suc idx) =
            (let t = tsv ! idx;
                 x = walk self policy d tsv (current_time tsv) noise x0 idx;
                 f = BaseSDE_f self x t d;
                 z = pol_call policy x t;
                 dw = sqrt (self_dt self) *\<^sub>R noise idx
             in fst (BaseSDE_propagate self t x z d (Some f) (Some dw) None w'))"
    for d tsv noise x0 idx and w' :: "'a world"
    by (simp add: Let_def BaseSDE_propagate_def current_time_def)
  from a b show ?thesis by blast
qed

theorem sample_traj_steps_at_current_time_witness:
  "pol_direction (ex_policy ''forward'') \<in> {''forward'', ''backward''}
   \<and> sorted_wrt (<) [0, 1 :: real]
   \<and> (\<exists>xs zs w'. BaseSDE_sample_traj ex_ve [0, 1] (ex_policy ''forward'') False ex_world =
         (Inr (xs, zs,
               walk ex_ve (ex_policy ''forward'') ''forward'' [0, 1] (current_time [0, 1])
                 (walk_noise ex_world) 5 (length [0, 1 :: real])), w'))
   \<and> walk ex_ve (ex_policy ''forward'') ''forward'' [0, 1] (current_time [0, 1])
        (walk_noise ex_world) 5 (length [0, 1 :: real]) = 5 + 3 * sqrt (2 * ln 2)"
proof -
  have h1: "pol_direction (ex_policy ''forward'') \<in> {''forward'', ''backward''}"
    by (simp add: ex_policy_def)
  have h2: "sorted_wrt (<) [0, 1 :: real]"
    by simp
  have d: "pol_direction (ex_policy ''forward'') = ''forward''"
    by (simp add: ex_policy_def)
  have t: "traversed ''forward'' [0, 1 :: real] = [0, 1]"
    by (simp add: traversed_def)
  have i: "init_batch ex_ve ''forward'' ex_world = 5"
    by (simp add: init_batch_def ex_ve_def ex_world_def)
  have v: "walk ex_ve (ex_policy ''forward'') ''forward'' [0, 1] (current_time [0, 1])
        (walk_noise ex_world) 5 (length [0, 1 :: real]) = 5 + 3 * sqrt (2 * ln 2)"
    by (simp add: ex_ve_def ex_policy_def ex_world_def walk_noise_def current_time_def Let_def
          BaseSDE_f_def BaseSDE_f_of_def BaseSDE_g_def priv_f_def priv_g_def VESDE_priv_f_def
          VESDE_priv_g_def
          compute_ve_diffusion_def compute_sigmas_def compute_ve_g_scale_def)
  from sample_traj_steps_at_current_time [OF h1 h2, of ex_ve False ex_world]
  have "\<exists>xs zs w'. BaseSDE_sample_traj ex_ve [0, 1] (ex_policy ''forward'') False ex_world =
         (Inr (xs, zs,
               walk ex_ve (ex_policy ''forward'') ''forward'' [0, 1] (current_time [0, 1])
                 (walk_noise ex_world) 5 (length [0, 1 :: real])), w')"
    unfolding d t i by (rule conjunct1)
  with h1 h2 v show ?thesis by blast
qed

text \<open>
  C2 as stated fails. On the grid \<open>[0, 1]\<close>, forward, with the variance-exploding
  instance of bounds 1 and 2, step size 1, initial batch 5, control 1 and noise 0, the
  call returns \<open>5 + 3 * sqrt (2 * ln 2)\<close>: step 0 takes the diffusion at time 0. With
  the following grid value as the time of step 0 the walk ends at
  \<open>5 + 4 * sqrt (2 * ln 2)\<close>.
\<close>

theorem sample_traj_next_time_counterexample:
  "fst (BaseSDE_sample_traj ex_ve [0, 1] (ex_policy ''forward'') False ex_world) =
     Inr (None, None, 5 + 3 * sqrt (2 * ln 2))
   \<and> walk ex_ve (ex_policy ''forward'') ''forward'' [0, 1] (next_time [0, 1])
        (walk_noise ex_world) (init_batch ex_ve ''forward'' ex_world) (Suc (Suc 0)) =
     5 + 4 * sqrt (2 * ln 2)
   \<and> 5 + 3 * sqrt (2 * ln 2) \<noteq> 5 + 4 * sqrt (2 * ln (2 :: real))"
proof -
  have a: "fst (BaseSDE_sample_traj ex_ve [0, 1] (ex_policy ''forward'') False ex_world) =
     Inr (None, None, 5 + 3 * sqrt (2 * ln 2))"
    by (simp add: BaseSDE_sample_traj_def ex_ve_def ex_policy_def ex_world_def
          assert_increasing_def dist_sample_def loop_body_eq Let_def BaseSDE_f_def
          BaseSDE_f_of_def BaseSDE_g_def
          priv_f_def priv_g_def VESDE_priv_f_def VESDE_priv_g_def compute_ve_diffusion_def
          compute_sigmas_def compute_ve_g_scale_def)
  have b: "walk ex_ve (ex_policy ''forward'') ''forward'' [0, 1] (next_time [0, 1])
        (walk_noise ex_world) (init_batch ex_ve ''forward'' ex_world) (Suc (Suc 0)) =
     5 + 4 * sqrt (2 * ln 2)"
    by (simp add: ex_ve_def ex_policy_def ex_world_def walk_noise_def next_time_def init_batch_def
          Let_def BaseSDE_f_def BaseSDE_f_of_def BaseSDE_g_def priv_f_def priv_g_def VESDE_priv_f_def
          VESDE_priv_g_def compute_ve_diffusion_def compute_sigmas_def compute_ve_g_scale_def)
  have c: "5 + 3 * sqrt (2 * ln 2) \<noteq> 5 + 4 * sqrt (2 * ln (2 :: real))"
    by simp
  from a b c show ?thesis by blast
qed

subsection \<open>A walk without drift and diffusion\<close>

lemma walk_simple_zero:
  assumes "self_class self = SimpleSDE 0"
  shows "walk self policy d ts tref noise x0 k = x0"
  using assms
  by (induction k)
     (simp_all add: Let_def BaseSDE_f_def BaseSDE_f_of_def BaseSDE_g_def priv_f_def priv_g_def
        SimpleSDE_priv_f_def SimpleSDE_priv_g_def)

text \<open>
  C8. For a \<open>SimpleSDE\<close> constructed with \<open>var = 0\<close>, every strictly increasing grid
  (of length 2 or more, or shorter) and a forward policy, \<^verbatim>\<open>sample_traj\<close> returns as
  final state the batch it drew from the data distribution \<open>p\<close>, and the state is that
  batch at every step: drift, control and noise contribute nothing.
\<close>

theorem simple_zero_var_returns_initial_batch:
  assumes "SimpleSDE_init opt p q (Some 0) = Inr self"
    and "sorted_wrt (<) ts"
    and "pol_direction policy = ''forward''"
  shows "(\<exists>xs zs w'. BaseSDE_sample_traj self ts policy save_traj w =
            (Inr (xs, zs, dist_samples w p (dist_calls w p)), w'))
       \<and> (\<forall>k. state_at_step self policy ts w k = dist_samples w p (dist_calls w p))"
proof -
  from assms(1) have c: "self_class self = SimpleSDE 0" and p: "self_p self = p"
    by (auto simp add: SimpleSDE_init_def BaseSDE_init_def split: if_splits)
  from assms(3) have d: "pol_direction policy \<in> {''forward'', ''backward''}"
    by simp
  have i: "init_batch self (pol_direction policy) w = dist_samples w p (dist_calls w p)"
    using assms(3) p by (simp add: init_batch_def)
  from sample_traj_x_term [OF d assms(2), of self save_traj w]
  have "\<exists>xs zs w'. BaseSDE_sample_traj self ts policy save_traj w =
            (Inr (xs, zs, dist_samples w p (dist_calls w p)), w')"
    unfolding walk_simple_zero [OF c] i by blast
  moreover have "\<forall>k. state_at_step self policy ts w k = dist_samples w p (dist_calls w p)"
    by (simp add: state_at_step_def Let_def walk_simple_zero [OF c] i)
  ultimately show ?thesis by blast
qed

theorem simple_zero_var_returns_initial_batch_witness:
  "SimpleSDE_init ex_opt 0 1 (Some 0) = Inr (ex_simple 0)
   \<and> sorted_wrt (<) [0, 0.5, 1 :: real]
   \<and> pol_direction (ex_policy ''forward'') = ''forward''
   \<and> (\<exists>xs zs w'. BaseSDE_sample_traj (ex_simple 0) [0, 0.5, 1] (ex_policy ''forward'') True
                    ex_world = (Inr (xs, zs, 5), w'))"
proof -
  have h1: "SimpleSDE_init ex_opt 0 1 (Some 0) = Inr (ex_simple 0)"
    by (simp add: SimpleSDE_init_def BaseSDE_init_def ex_opt_def ex_simple_def)
  have h2: "sorted_wrt (<) [0, 0.5, 1 :: real]"
    by simp
  have h3: "pol_direction (ex_policy ''forward'') = ''forward''"
    by (simp add: ex_policy_def)
  have s: "dist_samples ex_world 0 (dist_calls ex_world 0) = 5"
    by (simp add: ex_world_def)
  from simple_zero_var_returns_initial_batch [OF h1 h2 h3, of True ex_world]
  have "\<exists>xs zs w'. BaseSDE_sample_traj (ex_simple 0) [0, 0.5, 1] (ex_policy ''forward'') True
                    ex_world = (Inr (xs, zs, 5), w')"
    unfolding s by (rule conjunct1)
  with h1 h2 h3 show ?thesis by blast
qed

subsection \<open>A grid that is not increasing\<close>

text \<open>
  C4. For every grid that is not strictly increasing and every policy with one of the two
  directions, \<^verbatim>\<open>sample_traj\<close> fails with \<open>AssertionError\<close> and leaves the world as it
  was: no batch is drawn from \<open>p\<close> or \<open>q\<close>, no buffer is allocated, and no noise is
  drawn, so no step has run.
\<close>

theorem sample_traj_rejects_unordered_grid:
  assumes "pol_direction policy \<in> {''forward'', ''backward''}" and "\<not> sorted_wrt (<) ts"
  shows "BaseSDE_sample_traj self ts policy save_traj w = (Inl AssertionError, w)"
proof -
  from assms(2) have "assert_increasing ''ts'' ts \<noteq> Inr ()"
    by (simp add: assert_increasing_iff)
  then have a: "assert_increasing ''ts'' ts = Inl AssertionError"
    by (simp add: assert_increasing_def split: if_splits)
  from assms(1) show ?thesis
    unfolding BaseSDE_sample_traj_def Let_def a by auto
qed

theorem sample_traj_rejects_unordered_grid_witness:
  "pol_direction (ex_policy ''forward'') \<in> {''forward'', ''backward''}
   \<and> \<not> sorted_wrt (<) [0, 0.5, 0.3 :: real]
   \<and> BaseSDE_sample_traj ex_ve [0, 0.5, 0.3] (ex_policy ''forward'') True ex_world =
       (Inl AssertionError, ex_world)"
proof -
  have h1: "pol_direction (ex_policy ''forward'') \<in> {''forward'', ''backward''}"
    by (simp add: ex_policy_def)
  have h2: "\<not> sorted_wrt (<) [0, 0.5, 0.3 :: real]"
    by (simp only: sorted_wrt.simps list.set ball_simps insert_iff) simp
  from sample_traj_rejects_unordered_grid [OF h1 h2, of ex_ve True ex_world] h1 h2
  show ?thesis by blast
qed

subsection \<open>One step of the walk\<close>

text \<open>
  C1. For every state, control, time and direction, \<open>BaseSDE_propagate\<close> returns
  \<open>x + (f + g(t) * z) * dt + g(t) * dw\<close> and nothing else is applied to it. A drift,
  noise increment or step size that is passed is used as it is; one that is left out is
  \<open>BaseSDE_f self x t direction\<close>, the step size \<open>self_dt self\<close> of the instance, and
  a fresh increment \<open>BaseSDE_dw\<close> for the step size in use, whose draw advances the
  random source by one.
\<close>

theorem propagate_formula:
  "BaseSDE_propagate self t x z direction f dw dt w =
     (let g = BaseSDE_g self t;
          f' = (case f of None \<Rightarrow> BaseSDE_f self x t direction | Some v \<Rightarrow> v);
          dt' = (case dt of None \<Rightarrow> self_dt self | Some v \<Rightarrow> v);
          dw' = (case dw of None \<Rightarrow> sqrt dt' *\<^sub>R randn_samples w (randn_calls w) | Some v \<Rightarrow> v);
          w' = (case dw of None \<Rightarrow> w\<lparr>randn_calls := randn_calls w + 1\<rparr> | Some v \<Rightarrow> w)
      in (x + dt' *\<^sub>R (f' + g *\<^sub>R z) + g *\<^sub>R dw', w'))
   \<and> fst (BaseSDE_dw self x (Some (case dt of None \<Rightarrow> self_dt self | Some v \<Rightarrow> v)) w) =
       sqrt (case dt of None \<Rightarrow> self_dt self | Some v \<Rightarrow> v) *\<^sub>R randn_samples w (randn_calls w)"
  by (cases f; cases dw; cases dt) (simp_all add: BaseSDE_propagate_def BaseSDE_dw_def Let_def)

text \<open>
  C10. For every instance, when the drift, the noise increment and the step size are all
  passed, the result of \<open>BaseSDE_propagate\<close> is the same in every world: it is the
  value of the formula at the arguments, and the random source is left as it was (no draw
  occurs).
\<close>

theorem propagate_deterministic:
  "fst (BaseSDE_propagate self t x z direction (Some f) (Some dw) (Some dt) w1) =
     fst (BaseSDE_propagate self t x z direction (Some f) (Some dw) (Some dt) w2)
   \<and> fst (BaseSDE_propagate self t x z direction (Some f) (Some dw) (Some dt) w1) =
       x + dt *\<^sub>R (f + BaseSDE_g self t *\<^sub>R z) + BaseSDE_g self t *\<^sub>R dw
   \<and> snd (BaseSDE_propagate self t x z direction (Some f) (Some dw) (Some dt) w1) = w1"
  by (simp add: BaseSDE_propagate_def Let_def)

subsection \<open>The drift and its direction\<close>

text \<open>
  C5, as amended. For every state and time and every drift \<^verbatim>\<open>_f\<close> a class supplies,
  \<^verbatim>\<open>BaseSDE.f\<close> returns \<^verbatim>\<open>_f(x,t)\<close> for the direction \<open>forward\<close> and
  \<^verbatim>\<open>-_f(x,t)\<close> for every other direction, \<open>backward\<close> or not; it fails for none.
  In particular this holds of the drift of the three classes of this module.
\<close>

theorem f_sign_by_direction:
  "BaseSDE_f_of f_impl x t direction =
     (if direction = ''forward'' then f_impl x t else - f_impl x t)
   \<and> BaseSDE_f self x t direction =
       (if direction = ''forward'' then priv_f self x t else - priv_f self x t)"
  by (simp add: BaseSDE_f_def BaseSDE_f_of_def Let_def)

text \<open>
  C5 as stated fails. For the direction \<open>sideways\<close>, where the drift as the
  specification words it fails, \<^verbatim>\<open>BaseSDE.f\<close> returns the negated drift, a value:
  \<open>- 3\<close> at the state 3 for a class whose drift is the state itself, and the negated
  zero drift for a \<open>SimpleSDE\<close> instance.
\<close>

theorem f_unrecognized_direction_counterexample:
  "BaseSDE_f_spec ex_drift 3 0 ''sideways'' = None
   \<and> BaseSDE_f_of ex_drift 3 0 ''sideways'' = - 3
   \<and> Some (BaseSDE_f_of ex_drift 3 0 ''sideways'') \<noteq> BaseSDE_f_spec ex_drift 3 0 ''sideways''
   \<and> BaseSDE_f_spec (priv_f (ex_simple 1)) (3 :: real) 0 ''sideways'' = None
   \<and> BaseSDE_f (ex_simple 1) (3 :: real) 0 ''sideways'' = - priv_f (ex_simple 1) 3 0
   \<and> Some (BaseSDE_f (ex_simple 1) (3 :: real) 0 ''sideways'')
       \<noteq> BaseSDE_f_spec (priv_f (ex_simple 1)) 3 0 ''sideways''"
  by (simp add: BaseSDE_f_spec_def BaseSDE_f_def BaseSDE_f_of_def ex_drift_def Let_def)

subsection \<open>The factory\<close>

lemma build_ve: "opt_sde_type opt = ''ve'' \<Longrightarrow> build opt p q = VESDE_init opt p q"
  by (simp add: build_def)

lemma build_ve2: "opt_sde_type opt = ''ve2'' \<Longrightarrow> build opt p q = VESDE2_init opt p q"
  by (simp add: build_def)

lemma build_simple:
  "opt_sde_type opt = ''simple'' \<Longrightarrow> build opt p q = SimpleSDE_init opt p q None"
  by (simp add: build_def)

lemma build_other:
  "opt_sde_type opt \<notin> {''ve'', ''ve2'', ''simple''} \<Longrightarrow> build opt p q = Inl TypeError"
  by (simp add: build_def)

lemma build_cases:
  assumes "build opt p q = Inr s"
  shows "opt_sde_type opt = ''ve'' \<and> VESDE_init opt p q = Inr s
       \<or> opt_sde_type opt = ''ve2'' \<and> VESDE2_init opt p q = Inr s
       \<or> opt_sde_type opt = ''simple'' \<and> SimpleSDE_init opt p q None = Inr s"
proof (cases "opt_sde_type opt \<in> {''ve'', ''ve2'', ''simple''}")
  case True
  with assms show ?thesis
    by (auto simp add: build_ve build_ve2 build_simple)
next
  case False
  with assms show ?thesis
    by (simp add: build_other)
qed

text \<open>
  C7. The factory returns a \<open>VESDE\<close> instance for the name \<open>ve\<close>, a \<open>VESDE2\<close>
  instance for \<open>ve2\<close> and a \<open>SimpleSDE\<close> instance for \<open>simple\<close>, each holding the
  configuration and the two distributions, whenever the configured step count is not
  zero (the constructor divides by it); for every other name it fails, whatever the
  rest of the configuration, and falls back on no class.
\<close>

theorem build_by_name:
  "(opt_sde_type opt = ''ve'' \<and> opt_interval opt \<noteq> 0 \<longrightarrow>
      (\<exists>s. build opt p q = Inr s
         \<and> self_class s = VESDE (opt_sigma_min opt) (opt_sigma_max opt)
         \<and> self_opt s = opt \<and> self_p s = p \<and> self_q s = q))
   \<and> (opt_sde_type opt = ''ve2'' \<and> opt_interval opt \<noteq> 0 \<longrightarrow>
      (\<exists>s. build opt p q = Inr s
         \<and> self_class s = VESDE2 (opt_sigma_min opt) (opt_sigma_max opt)
         \<and> self_opt s = opt \<and> self_p s = p \<and> self_q s = q))
   \<and> (opt_sde_type opt = ''simple'' \<and> opt_interval opt \<noteq> 0 \<longrightarrow>
      (\<exists>s var. build opt p q = Inr s
         \<and> self_class s = SimpleSDE var
         \<and> self_opt s = opt \<and> self_p s = p \<and> self_q s = q))
   \<and> (opt_sde_type opt \<notin> {''ve'', ''ve2'', ''simple''} \<longrightarrow> build opt p q = Inl TypeError)"
proof (intro conjI impI)
  assume "opt_sde_type opt = ''ve'' \<and> opt_interval opt \<noteq> 0"
  then show "\<exists>s. build opt p q = Inr s
         \<and> self_class s = VESDE (opt_sigma_min opt) (opt_sigma_max opt)
         \<and> self_opt s = opt \<and> self_p s = p \<and> self_q s = q"
    by (simp add: build_ve VESDE_init_def BaseSDE_init_def)
next
  assume "opt_sde_type opt = ''ve2'' \<and> opt_interval opt \<noteq> 0"
  then show "\<exists>s. build opt p q = Inr s
         \<and> self_class s = VESDE2 (opt_sigma_min opt) (opt_sigma_max opt)
         \<and> self_opt s = opt \<and> self_p s = p \<and> self_q s = q"
    by (simp add: build_ve2 VESDE2_init_def BaseSDE_init_def)
next
  assume "opt_sde_type opt = ''simple'' \<and> opt_interval opt \<noteq> 0"
  then show "\<exists>s var. build opt p q = Inr s
         \<and> self_class s = SimpleSDE var
         \<and> self_opt s = opt \<and> self_p s = p \<and> self_q s = q"
    by (simp add: build_simple SimpleSDE_init_def BaseSDE_init_def)
next
  assume "opt_sde_type opt \<notin> {''ve'', ''ve2'', ''simple''}"
  then show "build opt p q = Inl TypeError"
    by (rule build_other)
qed

theorem build_by_name_witness:
  "(opt_sde_type ex_opt = ''ve'' \<and> opt_interval ex_opt \<noteq> 0)
   \<and> (\<exists>s. build ex_opt 0 1 = Inr s \<and> self_class s = VESDE 1 2)
   \<and> (opt_sde_type (ex_opt\<lparr>opt_sde_type := ''ve2''\<rparr>) = ''ve2''
        \<and> opt_interval (ex_opt\<lparr>opt_sde_type := ''ve2''\<rparr>) \<noteq> 0)
   \<and> (\<exists>s. build (ex_opt\<lparr>opt_sde_type := ''ve2''\<rparr>) 0 1 = Inr s \<and> self_class s = VESDE2 1 2)
   \<and> (opt_sde_type (ex_opt\<lparr>opt_sde_type := ''simple''\<rparr>) = ''simple''
        \<and> opt_interval (ex_opt\<lparr>opt_sde_type := ''simple''\<rparr>) \<noteq> 0)
   \<and> (\<exists>s var. build (ex_opt\<lparr>opt_sde_type := ''simple''\<rparr>) 0 1 = Inr s
                \<and> self_class s = SimpleSDE var)
   \<and> opt_sde_type (ex_opt\<lparr>opt_sde_type := ''vp''\<rparr>) \<notin> {''ve'', ''ve2'', ''simple''}
   \<and> build (ex_opt\<lparr>opt_sde_type := ''vp''\<rparr>) 0 1 = Inl TypeError"
proof -
  have h1: "opt_sde_type ex_opt = ''ve'' \<and> opt_interval ex_opt \<noteq> 0"
    by (simp add: ex_opt_def)
  have h2: "opt_sde_type (ex_opt\<lparr>opt_sde_type := ''ve2''\<rparr>) = ''ve2''
        \<and> opt_interval (ex_opt\<lparr>opt_sde_type := ''ve2''\<rparr>) \<noteq> 0"
    by (simp add: ex_opt_def)
  have h3: "opt_sde_type (ex_opt\<lparr>opt_sde_type := ''simple''\<rparr>) = ''simple''
        \<and> opt_interval (ex_opt\<lparr>opt_sde_type := ''simple''\<rparr>) \<noteq> 0"
    by (simp add: ex_opt_def)
  have h4: "opt_sde_type (ex_opt\<lparr>opt_sde_type := ''vp''\<rparr>) \<notin> {''ve'', ''ve2'', ''simple''}"
    by simp
  have m: "opt_sigma_min ex_opt = 1" "opt_sigma_max ex_opt = 2"
    by (simp_all add: ex_opt_def)
  from build_by_name [of ex_opt 0 1] h1 m
  have c1: "\<exists>s. build ex_opt 0 1 = Inr s \<and> self_class s = VESDE 1 2"
    by auto
  from build_by_name [of "ex_opt\<lparr>opt_sde_type := ''ve2''\<rparr>" 0 1] h2 m
  have c2: "\<exists>s. build (ex_opt\<lparr>opt_sde_type := ''ve2''\<rparr>) 0 1 = Inr s \<and> self_class s = VESDE2 1 2"
    by auto
  from build_by_name [of "ex_opt\<lparr>opt_sde_type := ''simple''\<rparr>" 0 1] h3
  have c3: "\<exists>s var. build (ex_opt\<lparr>opt_sde_type := ''simple''\<rparr>) 0 1 = Inr s
                \<and> self_class s = SimpleSDE var"
    by blast
  from build_by_name [of "ex_opt\<lparr>opt_sde_type := ''vp''\<rparr>" 0 1] h4
  have c4: "build (ex_opt\<lparr>opt_sde_type := ''vp''\<rparr>) 0 1 = Inl TypeError"
    by blast
  from h1 h2 h3 h4 c1 c2 c3 c4 show ?thesis by blast
qed

text \<open>
  C9. For every configuration and every two distributions, a \<open>SimpleSDE\<close> instance that
  the factory returns has \<open>var = 1\<close>, and so the constant diffusion 1 at every time:
  the factory passes no \<open>var\<close> to the constructor.
\<close>

theorem build_simple_var_is_one:
  assumes "build opt p q = Inr s" and "self_class s = SimpleSDE var"
  shows "var = 1 \<and> opt_sde_type opt = ''simple'' \<and> BaseSDE_g s t = 1"
proof -
  from build_cases [OF assms(1)] assms(2)
  have n: "opt_sde_type opt = ''simple''" and i: "SimpleSDE_init opt p q None = Inr s"
    by (auto simp add: VESDE_init_def VESDE2_init_def BaseSDE_init_def split: if_splits)
  from i have "self_class s = SimpleSDE 1"
    by (auto simp add: SimpleSDE_init_def BaseSDE_init_def split: if_splits)
  with assms(2) n show ?thesis
    by (simp add: BaseSDE_g_def priv_g_def SimpleSDE_priv_g_def)
qed

theorem build_simple_var_is_one_witness:
  "build (ex_opt\<lparr>opt_sde_type := ''simple''\<rparr>) 0 1 =
     Inr ((ex_simple 1)\<lparr>self_opt := ex_opt\<lparr>opt_sde_type := ''simple''\<rparr>\<rparr>)
   \<and> self_class ((ex_simple 1)\<lparr>self_opt := ex_opt\<lparr>opt_sde_type := ''simple''\<rparr>\<rparr>) = SimpleSDE 1
   \<and> (1 :: real) = 1
   \<and> BaseSDE_g ((ex_simple 1)\<lparr>self_opt := ex_opt\<lparr>opt_sde_type := ''simple''\<rparr>\<rparr>) 0 = 1"
proof -
  have h1: "build (ex_opt\<lparr>opt_sde_type := ''simple''\<rparr>) 0 1 =
     Inr ((ex_simple 1)\<lparr>self_opt := ex_opt\<lparr>opt_sde_type := ''simple''\<rparr>\<rparr>)"
    by (simp add: build_def SimpleSDE_init_def BaseSDE_init_def ex_opt_def ex_simple_def)
  have h2: "self_class ((ex_simple 1)\<lparr>self_opt := ex_opt\<lparr>opt_sde_type := ''simple''\<rparr>\<rparr>)
              = SimpleSDE 1"
    by (simp add: ex_simple_def)
  from build_simple_var_is_one [OF h1 h2, of 0] h1 h2 show ?thesis by blast
qed

end
